theory Spec2Isabelle
  imports Main "HOL-Library.Word"
begin

unbundle bit_operations_syntax

section \<open>The Rockchip integrated FEPHY driver (drivers/net/phy/rockchip-fephy.c)\<close>

text \<open>
  The driver is straight-line code over the MDIO register bus. Every function of the
  source is embedded as a function that takes the history of bus and interrupt-controller
  events so far and returns the C return value together with the extended history. The
  services the driver calls into (\<open>phy_write\<close>, \<open>genphy_suspend\<close>, \<open>genphy_resume\<close>,
  \<open>devm_kzalloc\<close>, \<open>of_irq_get_byname\<close>, \<open>devm_request_threaded_irq\<close>) are parameters.
\<close>

subsection \<open>Machine types and constants\<close>

type_synonym u8 = "8 word"
type_synonym u16 = "16 word"
type_synonym u32 = "32 word"
type_synonym u64 = "64 word"

named_theorems fephy_consts

definition SMI_ADDR_TSTCNTL :: u32 where [fephy_consts]: "SMI_ADDR_TSTCNTL = 20"
definition SMI_ADDR_TSTWRITE :: u32 where [fephy_consts]: "SMI_ADDR_TSTWRITE = 23"
definition MII_LED_CTRL :: u32 where [fephy_consts]: "MII_LED_CTRL = 25"
definition MII_INT_MASK :: u32 where [fephy_consts]: "MII_INT_MASK = 30"

definition TSTCNTL_WRITE_ADDR :: nat where [fephy_consts]: "TSTCNTL_WRITE_ADDR = 0"
definition TSTCNTL_BANK_SEL :: nat where [fephy_consts]: "TSTCNTL_BANK_SEL = 11"

text \<open>
  \<open>BIT(n)\<close> is the kernel's \<open>1UL << n\<close> (include/vdso/bits.h), an unsigned long, 64 bits
  wide on the arm64 target of this tree.
\<close>

definition BIT :: "nat \<Rightarrow> u64" where [fephy_consts]: "BIT n = push_bit n 1"

definition TSTCNTL_WR :: u64 where [fephy_consts]: "TSTCNTL_WR = BIT 14 OR BIT 10"

text \<open>
  The macro \<open>TSTCNTL_WRITE(bank, reg)\<close>. The \<open>u8\<close> bank is promoted to \<open>int\<close> before the
  shift (at most \<open>255 << 11\<close>, so the 32-bit shift loses nothing), the register offset
  is a \<open>u32\<close>, and both are widened to unsigned long by the OR with \<open>TSTCNTL_WR\<close>.
\<close>

definition TSTCNTL_WRITE :: "u8 \<Rightarrow> u32 \<Rightarrow> u64" where
  "TSTCNTL_WRITE bank reg =
     TSTCNTL_WR OR ucast (push_bit TSTCNTL_BANK_SEL (ucast bank :: u32))
                OR ucast (push_bit TSTCNTL_WRITE_ADDR reg)"

definition TSTMODE_ENABLE :: u16 where [fephy_consts]: "TSTMODE_ENABLE = 0x400"
definition TSTMODE_DISABLE :: u16 where [fephy_consts]: "TSTMODE_DISABLE = 0x0"

text \<open>The anonymous enum of bank numbers; a bank is passed on as a \<open>u8\<close>.\<close>

definition BANK_DSP0 :: u8 where [fephy_consts]: "BANK_DSP0 = 0"
definition BANK_WOL :: u8 where [fephy_consts]: "BANK_WOL = 1"
definition BANK_BIST :: u8 where [fephy_consts]: "BANK_BIST = 3"
definition BANK_AFE :: u8 where [fephy_consts]: "BANK_AFE = 4"
definition BANK_DSP1 :: u8 where [fephy_consts]: "BANK_DSP1 = 5"

text \<open>The errno values of include/uapi/asm-generic/errno-base.h and include/linux/errno.h.\<close>

definition ENOMEM :: int where [fephy_consts]: "ENOMEM = 12"
definition EPROBE_DEFER :: int where [fephy_consts]: "EPROBE_DEFER = 517"

subsection \<open>Events, environment and device structures\<close>

text \<open>
  What the driver does to the outside world, in the order it does it. A \<open>Write\<close> is
  recorded when \<open>phy_write\<close> is called, whether or not the bus then reports an error.
\<close>

datatype event =
    Write u32 u16
  | RequestIrq int
  | PhydevErr int
  | DisableIrq int
  | EnableIrq int
  | EnableIrqWake int
  | GenphySuspend
  | GenphyResume

text \<open>
  The environment gives the return value of every external call. The result of a bus
  write and of the generic suspend and resume may depend on everything that happened
  before, so they take the history.
\<close>

record env =
  phy_write_ret :: "event list \<Rightarrow> u32 \<Rightarrow> u16 \<Rightarrow> int"
  genphy_suspend_ret :: "event list \<Rightarrow> int"
  genphy_resume_ret :: "event list \<Rightarrow> int"
  devm_kzalloc_ok :: bool
  of_irq_get_byname_ret :: int
  devm_request_threaded_irq_ret :: "int \<Rightarrow> int"

record net_device =
  dev_addr :: "u8 list"

text \<open>
  \<open>struct rockchip_fephy_priv\<close>: the back pointer \<open>phydev\<close> is either NULL or points to
  the owning PHY, so it is a flag here.
\<close>

record rockchip_fephy_priv =
  phydev_set :: bool
  wol_irq :: int

text \<open>The two fields of \<open>struct phy_device\<close> the driver reads; \<open>None\<close> is a NULL pointer.\<close>

record phy_device =
  priv :: "rockchip_fephy_priv option"
  attached_dev :: "net_device option"

subsection \<open>Register access and the test-mode bank controller\<close>

definition phy_write :: "env \<Rightarrow> event list \<Rightarrow> u32 \<Rightarrow> u16 \<Rightarrow> int \<times> event list" where
  "phy_write e tr regnum val = (phy_write_ret e tr regnum val, tr @ [Write regnum val])"

definition rockchip_fephy_init_tstmode :: "env \<Rightarrow> event list \<Rightarrow> int \<times> event list" where
  "rockchip_fephy_init_tstmode e tr =
     (let (ret, tr1) = phy_write e tr SMI_ADDR_TSTCNTL TSTMODE_DISABLE in
      if ret \<noteq> 0 then (ret, tr1) else
      let (ret, tr2) = phy_write e tr1 SMI_ADDR_TSTCNTL TSTMODE_ENABLE in
      if ret \<noteq> 0 then (ret, tr2) else
      let (ret, tr3) = phy_write e tr2 SMI_ADDR_TSTCNTL TSTMODE_DISABLE in
      if ret \<noteq> 0 then (ret, tr3) else
      phy_write e tr3 SMI_ADDR_TSTCNTL TSTMODE_ENABLE)"

definition rockchip_fephy_close_tstmode :: "env \<Rightarrow> event list \<Rightarrow> int \<times> event list" where
  "rockchip_fephy_close_tstmode e tr = phy_write e tr SMI_ADDR_TSTCNTL TSTMODE_DISABLE"

text \<open>
  The control word is computed as an unsigned long and narrowed to the \<open>u16\<close> parameter
  of \<open>phy_write\<close>.
\<close>

definition rockchip_fephy_bank_write ::
  "env \<Rightarrow> event list \<Rightarrow> u8 \<Rightarrow> u32 \<Rightarrow> u16 \<Rightarrow> int \<times> event list" where
  "rockchip_fephy_bank_write e tr bank reg val =
     (let (ret, tr1) = phy_write e tr SMI_ADDR_TSTWRITE val in
      if ret \<noteq> 0 then (ret, tr1) else
      phy_write e tr1 SMI_ADDR_TSTCNTL (ucast (TSTCNTL_WRITE bank reg)))"

subsection \<open>Initialisation\<close>

definition rockchip_fephy_config_init :: "env \<Rightarrow> event list \<Rightarrow> int \<times> event list" where
  "rockchip_fephy_config_init e tr =
     (let (ret, tr1) = phy_write e tr MII_LED_CTRL 0x7aa in
      if ret \<noteq> 0 then (ret, tr1) else
      let (ret, tr2) = rockchip_fephy_init_tstmode e tr1 in
      if ret \<noteq> 0 then (ret, tr2) else
      let (ret, tr3) = rockchip_fephy_bank_write e tr2 BANK_DSP0 0x18 0xc in
      if ret \<noteq> 0 then (ret, tr3) else
      let (ret, tr4) = rockchip_fephy_close_tstmode e tr3 in
      if ret \<noteq> 0 then (ret, tr4) else
      (ret, tr4))"

subsection \<open>Wake-on-LAN\<close>

text \<open>
  \<open>((u16)hi << 8) + lo\<close>: the operands are promoted to \<open>int\<close>, where the sum is at most
  \<open>0xffff\<close>, and the result is narrowed to the \<open>u16\<close> parameter of the bank write.
\<close>

definition wol_match_word :: "u8 \<Rightarrow> u8 \<Rightarrow> u16" where
  "wol_match_word hi lo = ucast (push_bit 8 (ucast (ucast hi :: u16) :: u32) + ucast lo)"

text \<open>
  The source dereferences \<open>phydev->attached_dev\<close> and reads \<open>dev_addr[0..5]\<close> unchecked.
  A NULL \<open>attached_dev\<close> or an address array shorter than six bytes is undefined
  behaviour in C; the model returns \<open>None\<close> for it.
\<close>

definition rockchip_fephy_wol_enable ::
  "env \<Rightarrow> phy_device \<Rightarrow> event list \<Rightarrow> (int \<times> event list) option" where
  "rockchip_fephy_wol_enable e phydev tr =
     (case attached_dev phydev of
        None \<Rightarrow> None
      | Some ndev \<Rightarrow>
          if length (dev_addr ndev) < 6 then None else
          Some (
            let (ret, tr1) = rockchip_fephy_bank_write e tr BANK_WOL 0x0
                               (wol_match_word (dev_addr ndev ! 4) (dev_addr ndev ! 5)) in
            if ret \<noteq> 0 then (ret, tr1) else
            let (ret, tr2) = rockchip_fephy_bank_write e tr1 BANK_WOL 0x1
                               (wol_match_word (dev_addr ndev ! 2) (dev_addr ndev ! 3)) in
            if ret \<noteq> 0 then (ret, tr2) else
            let (ret, tr3) = rockchip_fephy_bank_write e tr2 BANK_WOL 0x2
                               (wol_match_word (dev_addr ndev ! 0) (dev_addr ndev ! 1)) in
            if ret \<noteq> 0 then (ret, tr3) else
            let (ret, tr4) = rockchip_fephy_bank_write e tr3 BANK_WOL 0x3 0xf in
            if ret \<noteq> 0 then (ret, tr4) else
            let (ret, tr5) = phy_write e tr4 MII_INT_MASK 0xe00 in
            if ret \<noteq> 0 then (ret, tr5) else
            (ret, tr5)))"

definition rockchip_fephy_wol_disable :: "env \<Rightarrow> event list \<Rightarrow> int \<times> event list" where
  "rockchip_fephy_wol_disable e tr =
     (let (ret, tr1) = rockchip_fephy_bank_write e tr BANK_WOL 0x3 0x0 in
      if ret \<noteq> 0 then (ret, tr1) else
      let (ret, tr2) = phy_write e tr1 MII_INT_MASK 0x0 in
      if ret \<noteq> 0 then (ret, tr2) else
      (ret, tr2))"

subsection \<open>Probe, suspend and resume\<close>

text \<open>
  \<open>devm_kzalloc\<close> returns zeroed memory, so the fresh private structure has a NULL back
  pointer and \<open>wol_irq = 0\<close>. The result of the interrupt lookup is stored in the
  structure before it is examined.
\<close>

definition rockchip_fephy_probe ::
  "env \<Rightarrow> phy_device \<Rightarrow> event list \<Rightarrow> int \<times> phy_device \<times> event list" where
  "rockchip_fephy_probe e phydev tr =
     (if \<not> devm_kzalloc_ok e then (- ENOMEM, phydev, tr) else
      let p0 = \<lparr>phydev_set = False, wol_irq = 0\<rparr>;
          p1 = p0\<lparr>wol_irq := of_irq_get_byname_ret e\<rparr>;
          phydev1 = phydev\<lparr>priv := Some p1\<rparr> in
      if wol_irq p1 = - EPROBE_DEFER then (wol_irq p1, phydev1, tr) else
      if wol_irq p1 > 0 then
        (let ret = devm_request_threaded_irq_ret e (wol_irq p1);
             tr1 = tr @ [RequestIrq (wol_irq p1)] in
         if ret \<noteq> 0 then (ret, phydev1, tr1 @ [PhydevErr ret]) else
         (0, phydev1\<lparr>priv := Some (p1\<lparr>phydev_set := True\<rparr>)\<rparr>,
          tr1 @ [DisableIrq (wol_irq p1), EnableIrqWake (wol_irq p1)]))
      else (0, phydev1\<lparr>priv := Some (p1\<lparr>phydev_set := True\<rparr>)\<rparr>, tr))"

text \<open>
  Suspend and resume call the Wake-on-LAN functions as statements: their return value
  is not looked at. A NULL \<open>phydev->priv\<close> is dereferenced unchecked (\<open>None\<close>).
\<close>

definition rockchip_fephy_suspend ::
  "env \<Rightarrow> phy_device \<Rightarrow> event list \<Rightarrow> (int \<times> event list) option" where
  "rockchip_fephy_suspend e phydev tr =
     (case priv phydev of
        None \<Rightarrow> None
      | Some p \<Rightarrow>
          if wol_irq p > 0 then
            (case rockchip_fephy_wol_enable e phydev tr of
               None \<Rightarrow> None
             | Some (ret, tr1) \<Rightarrow>
                 let tr2 = tr1 @ [EnableIrq (wol_irq p)] in
                 Some (genphy_suspend_ret e tr2, tr2 @ [GenphySuspend]))
          else Some (genphy_suspend_ret e tr, tr @ [GenphySuspend]))"

definition rockchip_fephy_resume ::
  "env \<Rightarrow> phy_device \<Rightarrow> event list \<Rightarrow> (int \<times> event list) option" where
  "rockchip_fephy_resume e phydev tr =
     (case priv phydev of
        None \<Rightarrow> None
      | Some p \<Rightarrow>
          if wol_irq p > 0 then
            (let (ret, tr1) = rockchip_fephy_wol_disable e tr;
                 tr2 = tr1 @ [DisableIrq (wol_irq p)] in
             Some (genphy_resume_ret e tr2, tr2 @ [GenphyResume]))
          else Some (genphy_resume_ret e tr, tr @ [GenphyResume]))"


subsection \<open>Write sequences\<close>

text \<open>
  The vocabulary of the properties below. A write sequence is a list of (register, value)
  pairs; \<open>wr_events\<close> turns it into the bus events it produces.
\<close>

definition wr_events :: "(u32 \<times> u16) list \<Rightarrow> event list" where
  "wr_events ws = map (\<lambda>(r, v). Write r v) ws"

text \<open>
  \<open>writes_ok e tr ws\<close>: issued one after the other on top of the history \<open>tr\<close>, every
  write of \<open>ws\<close> is accepted by the bus (returns 0).
\<close>

fun writes_ok :: "env \<Rightarrow> event list \<Rightarrow> (u32 \<times> u16) list \<Rightarrow> bool" where
  "writes_ok e tr [] = True"
| "writes_ok e tr ((r, v) # ws) =
     (phy_write_ret e tr r v = 0 \<and> writes_ok e (tr @ [Write r v]) ws)"

text \<open>The return value of write number \<open>k\<close> (counted from 0) of \<open>ws\<close>, the earlier ones issued.\<close>

definition kth_ret :: "env \<Rightarrow> event list \<Rightarrow> (u32 \<times> u16) list \<Rightarrow> nat \<Rightarrow> int" where
  "kth_ret e tr ws k =
     phy_write_ret e (tr @ wr_events (take k ws)) (fst (ws ! k)) (snd (ws ! k))"

text \<open>Write number \<open>k\<close> of \<open>ws\<close> is the first one the bus rejects.\<close>

definition fails_at :: "env \<Rightarrow> event list \<Rightarrow> (u32 \<times> u16) list \<Rightarrow> nat \<Rightarrow> bool" where
  "fails_at e tr ws k = (k < length ws \<and> writes_ok e tr (take k ws) \<and> kth_ret e tr ws k \<noteq> 0)"

text \<open>
  The specification's reading of a register sequence: the writes are issued in order,
  the first failing write ends the sequence and its error is the result.
\<close>

fun write_seq :: "env \<Rightarrow> event list \<Rightarrow> (u32 \<times> u16) list \<Rightarrow> int \<times> event list" where
  "write_seq e tr [] = (0, tr)"
| "write_seq e tr ((r, v) # ws) =
     (if phy_write_ret e tr r v \<noteq> 0 then (phy_write_ret e tr r v, tr @ [Write r v])
      else write_seq e (tr @ [Write r v]) ws)"

text \<open>The specification's banked write: the data register, then the control word.\<close>

definition banked :: "u8 \<Rightarrow> u32 \<Rightarrow> u16 \<Rightarrow> (u32 \<times> u16) list" where
  "banked bank reg val =
     [(SMI_ADDR_TSTWRITE, val), (SMI_ADDR_TSTCNTL, ucast (TSTCNTL_WRITE bank reg))]"

definition tstmode_seq :: "(u32 \<times> u16) list" where
  "tstmode_seq = map (Pair SMI_ADDR_TSTCNTL) [0x0, 0x400, 0x0, 0x400]"

definition init_seq :: "(u32 \<times> u16) list" where
  "init_seq =
     (MII_LED_CTRL, 0x7aa) # tstmode_seq @ banked BANK_DSP0 0x18 0xC @ [(SMI_ADDR_TSTCNTL, 0x0)]"

definition wol_enable_seq :: "u8 list \<Rightarrow> (u32 \<times> u16) list" where
  "wol_enable_seq I =
     banked BANK_WOL 0 (push_bit 8 (ucast (I ! 4)) OR ucast (I ! 5)) @
     banked BANK_WOL 1 (push_bit 8 (ucast (I ! 2)) OR ucast (I ! 3)) @
     banked BANK_WOL 2 (push_bit 8 (ucast (I ! 0)) OR ucast (I ! 1)) @
     banked BANK_WOL 3 0xF @
     [(MII_INT_MASK, 0xE00)]"

definition wol_disable_seq :: "(u32 \<times> u16) list" where
  "wol_disable_seq = banked BANK_WOL 3 0x0 @ [(MII_INT_MASK, 0x0)]"

subsection \<open>A register model of the device\<close>

text \<open>
  Modelled from the spec: the PHY hardware is not part of the sources. The specification
  describes flat bus registers and banked registers that are reached through the
  control/data register pair. Here a bus write stores its value in the flat register,
  and a write to the test-mode control register whose value carries the write-command
  flag bits also commits the current content of the write-data register to the banked
  register that the control word selects.
\<close>

record device =
  flat_regs :: "u32 \<Rightarrow> u16"
  bank_regs :: "u16 \<Rightarrow> u16"

definition dev_write :: "device \<Rightarrow> u32 \<Rightarrow> u16 \<Rightarrow> device" where
  "dev_write d r v =
     \<lparr>flat_regs = (flat_regs d)(r := v),
      bank_regs = (if r = SMI_ADDR_TSTCNTL \<and> v AND ucast TSTCNTL_WR = ucast TSTCNTL_WR
                   then (bank_regs d)(v := flat_regs d SMI_ADDR_TSTWRITE)
                   else bank_regs d)\<rparr>"

fun dev_event :: "device \<Rightarrow> event \<Rightarrow> device" where
  "dev_event d (Write r v) = dev_write d r v"
| "dev_event d _ = d"

definition dev_run :: "event list \<Rightarrow> device \<Rightarrow> device" where
  "dev_run tr d = foldl dev_event d tr"

subsection \<open>Concrete environments and devices\<close>

text \<open>A bus that accepts every write, with wake line 5 in the device tree.\<close>

definition quiet_env :: env where
  "quiet_env = \<lparr>phy_write_ret = (\<lambda>tr r v. 0), genphy_suspend_ret = (\<lambda>tr. 0),
     genphy_resume_ret = (\<lambda>tr. 0), devm_kzalloc_ok = True, of_irq_get_byname_ret = 5,
     devm_request_threaded_irq_ret = (\<lambda>irq. 0)\<rparr>"

text \<open>The same, except that the write issued after \<open>n\<close> earlier events returns \<open>err\<close>.\<close>

definition faulty_env :: "nat \<Rightarrow> int \<Rightarrow> env" where
  "faulty_env n err =
     quiet_env\<lparr>phy_write_ret := (\<lambda>tr r v. if length tr = n then err else 0)\<rparr>"

definition irq_env :: "int \<Rightarrow> env" where
  "irq_env v = quiet_env\<lparr>of_irq_get_byname_ret := v\<rparr>"

definition mac_example :: "u8 list" where
  "mac_example = [0x00, 0x11, 0x22, 0x33, 0x44, 0x55]"

definition phydev_example :: "int \<Rightarrow> phy_device" where
  "phydev_example irq = \<lparr>priv = Some \<lparr>phydev_set = True, wol_irq = irq\<rparr>,
     attached_dev = Some \<lparr>dev_addr = mac_example\<rparr>\<rparr>"

definition phydev_fresh :: phy_device where
  "phydev_fresh = \<lparr>priv = None, attached_dev = None\<rparr>"

text \<open>A device whose registers all read 0.\<close>

definition dev_zero :: device where
  "dev_zero = \<lparr>flat_regs = (\<lambda>r. 0), bank_regs = (\<lambda>c. 0)\<rparr>"

section \<open>Properties\<close>

subsection \<open>Write sequences\<close>

lemma wr_events_append: "wr_events (xs @ ys) = wr_events xs @ wr_events ys"
  by (simp add: wr_events_def)

lemma wr_events_take_Pair: "wr_events (take k (map (Pair r) vs)) = map (Write r) (take k vs)"
  by (simp add: wr_events_def take_map)

lemma writes_ok_append:
  "writes_ok e tr (xs @ ys) = (writes_ok e tr xs \<and> writes_ok e (tr @ wr_events xs) ys)"
  by (induction xs arbitrary: tr) (auto simp: wr_events_def)

lemma write_seq_ok: "writes_ok e tr ws \<Longrightarrow> write_seq e tr ws = (0, tr @ wr_events ws)"
  by (induction ws arbitrary: tr) (auto simp: wr_events_def)

lemma write_seq_fail:
  "k < length ws \<Longrightarrow> writes_ok e tr (take k ws) \<Longrightarrow>
   phy_write_ret e (tr @ wr_events (take k ws)) (fst (ws ! k)) (snd (ws ! k)) \<noteq> 0 \<Longrightarrow>
   write_seq e tr ws =
     (phy_write_ret e (tr @ wr_events (take k ws)) (fst (ws ! k)) (snd (ws ! k)),
      tr @ wr_events (take (Suc k) ws))"
proof (induction ws arbitrary: tr k)
  case Nil
  then show ?case by simp
next
  case (Cons w ws)
  obtain r v where w: "w = (r, v)" by (cases w)
  show ?case
  proof (cases k)
    case 0
    with Cons.prems w show ?thesis by (simp add: wr_events_def)
  next
    case (Suc j)
    with Cons.prems w have ok: "phy_write_ret e tr r v = 0"
      and rest: "writes_ok e (tr @ [Write r v]) (take j ws)" and j: "j < length ws"
      by simp_all
    from Cons.prems Suc w
    have bad: "phy_write_ret e ((tr @ [Write r v]) @ wr_events (take j ws))
                 (fst (ws ! j)) (snd (ws ! j)) \<noteq> 0"
      by (simp add: wr_events_def)
    from Cons.IH [OF j rest bad] ok w Suc show ?thesis
      by (simp add: wr_events_def)
  qed
qed

lemma write_seq_failing:
  "fails_at e tr ws k \<Longrightarrow>
   write_seq e tr ws = (kth_ret e tr ws k, tr @ wr_events (take (Suc k) ws))"
  unfolding fails_at_def kth_ret_def by (blast intro: write_seq_fail)

lemma write_seq_prefix:
  "\<exists>k\<le>length ws. snd (write_seq e tr ws) = tr @ wr_events (take k ws)"
proof (induction ws arbitrary: tr)
  case Nil
  then show ?case by (simp add: wr_events_def)
next
  case (Cons w ws)
  obtain r v where w: "w = (r, v)" by (cases w)
  show ?case
  proof (cases "phy_write_ret e tr r v = 0")
    case True
    from Cons.IH [of "tr @ [Write r v]"] obtain k where
      "k \<le> length ws"
      "snd (write_seq e (tr @ [Write r v]) ws) = (tr @ [Write r v]) @ wr_events (take k ws)"
      by blast
    with True w show ?thesis
      by (intro exI [of _ "Suc k"]) (simp add: wr_events_def)
  next
    case False
    with w show ?thesis
      by (intro exI [of _ "Suc 0"]) (simp add: wr_events_def)
  qed
qed

subsection \<open>The driver's functions as write sequences\<close>

lemma wol_match_word_or: "wol_match_word hi lo = push_bit 8 (ucast hi) OR ucast lo"
proof -
  have "push_bit 8 (ucast (ucast hi :: u16) :: u32) + ucast lo =
        push_bit 8 (ucast (ucast hi :: u16) :: u32) OR ucast lo"
    by (rule disjunctive_add) (auto simp: bit_simps dest: bit_imp_le_length)
  then show ?thesis
    unfolding wol_match_word_def
    by (simp add: bit_eq_iff bit_simps) (auto simp: bit_simps dest: bit_imp_le_length)
qed

lemma TSTCNTL_WRITE_u16:
  "(ucast (TSTCNTL_WRITE bank reg) :: u16) = 0x4400 OR push_bit 11 (ucast bank) OR ucast reg"
  unfolding TSTCNTL_WRITE_def
  by (simp add: bit_eq_iff bit_simps fephy_consts)
     (auto simp: bit_simps dest: bit_imp_le_length)

lemma TSTCNTL_WRITE_unat:
  "unat (ucast (TSTCNTL_WRITE bank reg) :: u16) =
     take_bit 16 (0x4400 OR push_bit 11 (unat bank) OR unat reg)"
  unfolding TSTCNTL_WRITE_def
  by (rule bit_eqI)
     (auto simp: bit_simps fephy_consts unsigned_or_eq unsigned_ucast_eq unsigned_push_bit_eq
           dest: bit_imp_le_length)

lemma TSTCNTL_WRITE_in_range:
  assumes "unat bank < 32" and "unat reg < 2 ^ 16"
  shows "unat (ucast (TSTCNTL_WRITE bank reg) :: u16) =
           0x4400 OR push_bit 11 (unat bank) OR unat reg"
proof -
  have a: "take_bit 16 (unat reg) = unat reg"
    using assms(2) by (simp only: take_bit_nat_eq_self_iff)
  have "push_bit 11 (unat bank) < 2 ^ 16"
    using assms(1) by (simp add: push_bit_eq_mult)
  then have b: "take_bit 16 (push_bit 11 (unat bank)) = push_bit 11 (unat bank)"
    by (simp only: take_bit_nat_eq_self_iff)
  have "(0x4400 :: nat) < 2 ^ 16"
    by simp
  then have c: "take_bit 16 (0x4400 :: nat) = 0x4400"
    by (simp only: take_bit_nat_eq_self_iff)
  show ?thesis
    by (simp only: TSTCNTL_WRITE_unat take_bit_or a b c)
qed

lemma init_tstmode_seq: "rockchip_fephy_init_tstmode e tr = write_seq e tr tstmode_seq"
  by (simp add: rockchip_fephy_init_tstmode_def phy_write_def tstmode_seq_def fephy_consts)

lemma bank_write_seq:
  "rockchip_fephy_bank_write e tr bank reg val = write_seq e tr (banked bank reg val)"
  by (simp add: rockchip_fephy_bank_write_def phy_write_def banked_def)

lemma config_init_seq: "rockchip_fephy_config_init e tr = write_seq e tr init_seq"
  by (simp add: rockchip_fephy_config_init_def rockchip_fephy_close_tstmode_def
      init_tstmode_seq bank_write_seq phy_write_def init_seq_def tstmode_seq_def banked_def
      fephy_consts Let_def)

lemma wol_disable_is_seq: "rockchip_fephy_wol_disable e tr = write_seq e tr wol_disable_seq"
  by (simp add: rockchip_fephy_wol_disable_def bank_write_seq phy_write_def
      wol_disable_seq_def banked_def Let_def)

lemma wol_enable_is_seq:
  "attached_dev phydev = Some ndev \<Longrightarrow> 6 \<le> length (dev_addr ndev) \<Longrightarrow>
   rockchip_fephy_wol_enable e phydev tr =
     Some (write_seq e tr (wol_enable_seq (dev_addr ndev)))"
  by (simp add: rockchip_fephy_wol_enable_def bank_write_seq wol_match_word_or
      phy_write_def wol_enable_seq_def banked_def Let_def)

lemma init_seq_explicit:
  "init_seq = [(25, 0x7aa), (20, 0x0), (20, 0x400), (20, 0x0), (20, 0x400),
               (23, 0xC), (20, 0x4418), (20, 0x0)]"
  by (simp add: init_seq_def tstmode_seq_def banked_def TSTCNTL_WRITE_def fephy_consts)

lemma wol_disable_seq_explicit: "wol_disable_seq = [(23, 0x0), (20, 0x4C03), (30, 0x0)]"
  by (simp add: wol_disable_seq_def banked_def TSTCNTL_WRITE_def fephy_consts)

lemma wol_enable_seq_example:
  "wol_enable_seq mac_example =
     [(23, 0x4455), (20, 0x4C00), (23, 0x2233), (20, 0x4C01), (23, 0x0011), (20, 0x4C02),
      (23, 0xF), (20, 0x4C03), (30, 0xE00)]"
  by (simp add: wol_enable_seq_def mac_example_def banked_def TSTCNTL_WRITE_def fephy_consts)

lemma dev_run_append: "dev_run (xs @ ys) d = dev_run ys (dev_run xs d)"
  by (simp add: dev_run_def)

lemma dev_run_wol_disable_twice:
  "dev_run (wr_events wol_disable_seq) (dev_run (wr_events wol_disable_seq) d) =
   dev_run (wr_events wol_disable_seq) d"
  by (simp add: dev_run_def wr_events_def wol_disable_seq_explicit dev_write_def fephy_consts)

lemma quiet_writes_ok: "writes_ok quiet_env tr ws"
  by (induction ws arbitrary: tr) (auto simp: quiet_env_def)

subsection \<open>The test-mode bank controller\<close>

text \<open>
  C6. Entering test mode writes only to the test-mode control register (address 20) and
  takes its values in order from 0x0, 0x400, 0x0, 0x400. When the bus accepts all four
  writes the call returns 0 after exactly these four writes. When write number \<open>k\<close> is
  the first one rejected, the call returns that write's error and the history ends with
  the rejected write: the later ones are not issued. In every case the writes issued are
  a prefix of the four, so there are at most four.
\<close>

theorem init_tstmode_writes:
  "(writes_ok e tr tstmode_seq \<longrightarrow>
      rockchip_fephy_init_tstmode e tr =
        (0, tr @ map (Write 20) [0x0, 0x400, 0x0, 0x400]))
   \<and> (\<forall>k. fails_at e tr tstmode_seq k \<longrightarrow>
      rockchip_fephy_init_tstmode e tr =
        (kth_ret e tr tstmode_seq k, tr @ map (Write 20) (take (Suc k) [0x0, 0x400, 0x0, 0x400])))
   \<and> (\<exists>k\<le>4. snd (rockchip_fephy_init_tstmode e tr) =
        tr @ map (Write 20) (take k [0x0, 0x400, 0x0, 0x400]))"
proof -
  have ev: "wr_events (take k tstmode_seq) = map (Write 20) (take k [0x0, 0x400, 0x0, 0x400])"
    for k
    by (simp only: tstmode_seq_def SMI_ADDR_TSTCNTL_def wr_events_take_Pair)
  have ev_all: "wr_events tstmode_seq = map (Write 20) [0x0, 0x400, 0x0, 0x400]"
    by (simp add: wr_events_def tstmode_seq_def fephy_consts)
  have len: "length tstmode_seq = 4"
    by (simp add: tstmode_seq_def)
  have "writes_ok e tr tstmode_seq \<longrightarrow>
      rockchip_fephy_init_tstmode e tr = (0, tr @ map (Write 20) [0x0, 0x400, 0x0, 0x400])"
    using write_seq_ok [of e tr tstmode_seq] by (simp add: init_tstmode_seq ev_all)
  moreover have "\<forall>k. fails_at e tr tstmode_seq k \<longrightarrow>
      rockchip_fephy_init_tstmode e tr =
        (kth_ret e tr tstmode_seq k, tr @ map (Write 20) (take (Suc k) [0x0, 0x400, 0x0, 0x400]))"
    using write_seq_failing [of e tr tstmode_seq] by (simp add: init_tstmode_seq ev)
  moreover have "\<exists>k\<le>4. snd (rockchip_fephy_init_tstmode e tr) =
        tr @ map (Write 20) (take k [0x0, 0x400, 0x0, 0x400])"
    using write_seq_prefix [of tstmode_seq e tr] by (simp add: init_tstmode_seq ev len)
  ultimately show ?thesis by blast
qed

theorem init_tstmode_writes_witness:
  "writes_ok quiet_env [] tstmode_seq
   \<and> rockchip_fephy_init_tstmode quiet_env [] =
       (0, [Write 20 0x0, Write 20 0x400, Write 20 0x0, Write 20 0x400])
   \<and> fails_at (faulty_env 1 (- 5)) [] tstmode_seq 1
   \<and> rockchip_fephy_init_tstmode (faulty_env 1 (- 5)) [] =
       (- 5, [Write 20 0x0, Write 20 0x400])"
proof -
  have ok: "writes_ok quiet_env [] tstmode_seq"
    by (rule quiet_writes_ok)
  have bad: "fails_at (faulty_env 1 (- 5)) [] tstmode_seq 1"
    by (simp add: fails_at_def kth_ret_def tstmode_seq_def faulty_env_def quiet_env_def
        wr_events_def)
  have ret: "kth_ret (faulty_env 1 (- 5)) [] tstmode_seq 1 = - 5"
    by (simp add: kth_ret_def tstmode_seq_def faulty_env_def quiet_env_def wr_events_def)
  from init_tstmode_writes [of quiet_env "[]"] ok
  have a: "rockchip_fephy_init_tstmode quiet_env [] =
       (0, [Write 20 0x0, Write 20 0x400, Write 20 0x0, Write 20 0x400])"
    by simp
  from init_tstmode_writes [of "faulty_env 1 (- 5)" "[]"] bad ret
  have b: "rockchip_fephy_init_tstmode (faulty_env 1 (- 5)) [] =
       (- 5, [Write 20 0x0, Write 20 0x400])"
    by simp
  from ok a bad b show ?thesis by blast
qed

text \<open>
  C7. A banked write issues the value to the test-mode write-data register (address 23)
  and then the control word to the test-mode control register (address 20): two writes
  whenever the first is accepted, with the second write's return value as the result.
  When the first write is rejected its error is returned and nothing else is written.
  The control word is the write-command flag bits (0x4400) OR the bank shifted left
  by 11 OR the offset shifted left by 0. The register is 16 bits wide: for a bank below
  32 and an offset below \<open>2 ^ 16\<close> the value written is that expression itself, and
  in general it is the expression modulo \<open>2 ^ 16\<close>.
\<close>

theorem bank_write_two_writes:
  "(phy_write_ret e tr 23 val = 0 \<longrightarrow>
      rockchip_fephy_bank_write e tr bank reg val =
        (phy_write_ret e (tr @ [Write 23 val]) 20 (ucast (TSTCNTL_WRITE bank reg)),
         tr @ [Write 23 val, Write 20 (ucast (TSTCNTL_WRITE bank reg))]))
   \<and> (phy_write_ret e tr 23 val \<noteq> 0 \<longrightarrow>
      rockchip_fephy_bank_write e tr bank reg val =
        (phy_write_ret e tr 23 val, tr @ [Write 23 val]))
   \<and> (ucast (TSTCNTL_WRITE bank reg) :: u16) =
        ucast TSTCNTL_WR OR push_bit 11 (ucast bank) OR push_bit 0 (ucast reg)
   \<and> unat (ucast (TSTCNTL_WRITE bank reg) :: u16) =
        (unat TSTCNTL_WR OR push_bit 11 (unat bank) OR push_bit 0 (unat reg)) mod 2 ^ 16
   \<and> (unat bank < 32 \<and> unat reg < 2 ^ 16 \<longrightarrow>
        unat (ucast (TSTCNTL_WRITE bank reg) :: u16) =
          unat TSTCNTL_WR OR push_bit 11 (unat bank) OR push_bit 0 (unat reg))
   \<and> TSTCNTL_WR = 0x4400"
proof -
  have wr: "TSTCNTL_WR = 0x4400"
    by (simp add: fephy_consts)
  have "(ucast (TSTCNTL_WRITE bank reg) :: u16) =
        ucast TSTCNTL_WR OR push_bit 11 (ucast bank) OR push_bit 0 (ucast reg)"
    by (simp add: TSTCNTL_WRITE_u16 wr)
  moreover have "unat (ucast (TSTCNTL_WRITE bank reg) :: u16) =
        (unat TSTCNTL_WR OR push_bit 11 (unat bank) OR push_bit 0 (unat reg)) mod 2 ^ 16"
    by (simp add: TSTCNTL_WRITE_unat wr take_bit_eq_mod)
  moreover have "unat bank < 32 \<and> unat reg < 2 ^ 16 \<longrightarrow>
        unat (ucast (TSTCNTL_WRITE bank reg) :: u16) =
          unat TSTCNTL_WR OR push_bit 11 (unat bank) OR push_bit 0 (unat reg)"
    by (simp add: TSTCNTL_WRITE_in_range wr)
  moreover have "phy_write_ret e tr 23 val = 0 \<longrightarrow>
      rockchip_fephy_bank_write e tr bank reg val =
        (phy_write_ret e (tr @ [Write 23 val]) 20 (ucast (TSTCNTL_WRITE bank reg)),
         tr @ [Write 23 val, Write 20 (ucast (TSTCNTL_WRITE bank reg))])"
    by (simp add: rockchip_fephy_bank_write_def phy_write_def fephy_consts)
  moreover have "phy_write_ret e tr 23 val \<noteq> 0 \<longrightarrow>
      rockchip_fephy_bank_write e tr bank reg val =
        (phy_write_ret e tr 23 val, tr @ [Write 23 val])"
    by (simp add: rockchip_fephy_bank_write_def phy_write_def fephy_consts)
  ultimately show ?thesis using wr by blast
qed

theorem bank_write_two_writes_witness:
  "rockchip_fephy_bank_write quiet_env [] BANK_WOL 3 0xF =
     (0, [Write 23 0xF, Write 20 0x4C03])
   \<and> rockchip_fephy_bank_write (faulty_env 0 (- 5)) [] BANK_WOL 3 0xF =
     (- 5, [Write 23 0xF])
   \<and> unat BANK_WOL < 32 \<and> unat (3 :: u32) < 2 ^ 16
   \<and> unat (ucast (TSTCNTL_WRITE BANK_WOL 3) :: u16) = 0x4C03"
proof -
  have rng: "unat BANK_WOL < 32 \<and> unat (3 :: u32) < 2 ^ 16"
    by (simp add: fephy_consts)
  from bank_write_two_writes [of quiet_env "[]" "0xF" BANK_WOL 3] rng
  have "unat (ucast (TSTCNTL_WRITE BANK_WOL 3) :: u16) =
      unat TSTCNTL_WR OR push_bit 11 (unat BANK_WOL) OR push_bit 0 (unat (3 :: u32))"
    by blast
  then have c: "unat (ucast (TSTCNTL_WRITE BANK_WOL 3) :: u16) = 0x4C03"
    by (simp add: fephy_consts)
  have ok: "phy_write_ret quiet_env [] 23 0xF = 0"
    by (simp add: quiet_env_def)
  have bad: "phy_write_ret (faulty_env 0 (- 5)) [] 23 0xF = - 5"
    by (simp add: faulty_env_def quiet_env_def)
  have ctl: "(ucast (TSTCNTL_WRITE BANK_WOL 3) :: u16) = 0x4C03"
    by (simp add: TSTCNTL_WRITE_def fephy_consts)
  from bank_write_two_writes [of quiet_env "[]" "0xF" BANK_WOL 3] ok ctl
  have a: "rockchip_fephy_bank_write quiet_env [] BANK_WOL 3 0xF =
     (0, [Write 23 0xF, Write 20 0x4C03])"
    by (simp add: quiet_env_def)
  from bank_write_two_writes [of "faulty_env 0 (- 5)" "[]" "0xF" BANK_WOL 3] bad
  have b: "rockchip_fephy_bank_write (faulty_env 0 (- 5)) [] BANK_WOL 3 0xF =
     (- 5, [Write 23 0xF])"
    by simp
  from a b rng c show ?thesis by blast
qed

subsection \<open>Initialisation\<close>

text \<open>
  C4. When the bus accepts every write, initialisation returns 0 after exactly eight
  register writes, in this order: 0x7aa to the LED control register (25); 0x0, 0x400,
  0x0, 0x400 to the test-mode control register (20); the two writes of the banked write
  of 0xC to (DSP0, 0x18), that is 0xC to the write-data register (23) and the control
  word 0x4418 to register 20; and 0x0 to register 20. When write number \<open>k\<close> of these
  eight is the first one rejected, initialisation returns that write's error and the
  history ends with the rejected write.
\<close>

theorem config_init_writes:
  "(writes_ok e tr init_seq \<longrightarrow>
      rockchip_fephy_config_init e tr =
        (0, tr @ [Write 25 0x7aa, Write 20 0x0, Write 20 0x400, Write 20 0x0, Write 20 0x400,
                  Write 23 0xC, Write 20 (ucast (TSTCNTL_WRITE BANK_DSP0 0x18)), Write 20 0x0]))
   \<and> (\<forall>k. fails_at e tr init_seq k \<longrightarrow>
      rockchip_fephy_config_init e tr =
        (kth_ret e tr init_seq k, tr @ wr_events (take (Suc k) init_seq)))
   \<and> init_seq = [(25, 0x7aa), (20, 0x0), (20, 0x400), (20, 0x0), (20, 0x400),
                 (23, 0xC), (20, 0x4418), (20, 0x0)]
   \<and> length init_seq = 8"
proof -
  have ctl: "(ucast (TSTCNTL_WRITE BANK_DSP0 0x18) :: u16) = 0x4418"
    by (simp add: TSTCNTL_WRITE_def fephy_consts)
  have "writes_ok e tr init_seq \<longrightarrow>
      rockchip_fephy_config_init e tr =
        (0, tr @ [Write 25 0x7aa, Write 20 0x0, Write 20 0x400, Write 20 0x0, Write 20 0x400,
                  Write 23 0xC, Write 20 (ucast (TSTCNTL_WRITE BANK_DSP0 0x18)), Write 20 0x0])"
  proof
    assume "writes_ok e tr init_seq"
    then have "rockchip_fephy_config_init e tr = (0, tr @ wr_events init_seq)"
      by (simp add: config_init_seq write_seq_ok)
    then show "rockchip_fephy_config_init e tr =
        (0, tr @ [Write 25 0x7aa, Write 20 0x0, Write 20 0x400, Write 20 0x0, Write 20 0x400,
                  Write 23 0xC, Write 20 (ucast (TSTCNTL_WRITE BANK_DSP0 0x18)), Write 20 0x0])"
      by (simp add: init_seq_explicit wr_events_def ctl)
  qed
  moreover have "\<forall>k. fails_at e tr init_seq k \<longrightarrow>
      rockchip_fephy_config_init e tr =
        (kth_ret e tr init_seq k, tr @ wr_events (take (Suc k) init_seq))"
    by (simp add: config_init_seq write_seq_failing)
  moreover have "length init_seq = 8"
    by (simp add: init_seq_explicit)
  ultimately show ?thesis
    using init_seq_explicit by blast
qed

theorem config_init_writes_witness:
  "writes_ok quiet_env [] init_seq
   \<and> rockchip_fephy_config_init quiet_env [] =
       (0, [Write 25 0x7aa, Write 20 0x0, Write 20 0x400, Write 20 0x0, Write 20 0x400,
            Write 23 0xC, Write 20 0x4418, Write 20 0x0])
   \<and> fails_at (faulty_env 5 (- 5)) [] init_seq 5
   \<and> rockchip_fephy_config_init (faulty_env 5 (- 5)) [] =
       (- 5, [Write 25 0x7aa, Write 20 0x0, Write 20 0x400, Write 20 0x0, Write 20 0x400,
              Write 23 0xC])"
proof -
  have ok: "writes_ok quiet_env [] init_seq"
    by (rule quiet_writes_ok)
  have ctl: "(ucast (TSTCNTL_WRITE BANK_DSP0 0x18) :: u16) = 0x4418"
    by (simp add: TSTCNTL_WRITE_def fephy_consts)
  have bad: "fails_at (faulty_env 5 (- 5)) [] init_seq 5"
    by (simp add: fails_at_def kth_ret_def init_seq_explicit faulty_env_def quiet_env_def
        wr_events_def)
  have ret: "kth_ret (faulty_env 5 (- 5)) [] init_seq 5 = - 5"
    by (simp add: kth_ret_def init_seq_explicit faulty_env_def quiet_env_def wr_events_def)
  have pre: "wr_events (take (Suc 5) init_seq) =
      [Write 25 0x7aa, Write 20 0x0, Write 20 0x400, Write 20 0x0, Write 20 0x400, Write 23 0xC]"
    by (simp add: init_seq_explicit wr_events_def)
  from config_init_writes [of quiet_env "[]"] ok ctl
  have a: "rockchip_fephy_config_init quiet_env [] =
       (0, [Write 25 0x7aa, Write 20 0x0, Write 20 0x400, Write 20 0x0, Write 20 0x400,
            Write 23 0xC, Write 20 0x4418, Write 20 0x0])"
    by simp
  from config_init_writes [of "faulty_env 5 (- 5)" "[]"] bad
  have "rockchip_fephy_config_init (faulty_env 5 (- 5)) [] =
      (kth_ret (faulty_env 5 (- 5)) [] init_seq 5, [] @ wr_events (take (Suc 5) init_seq))"
    by blast
  with ret pre
  have b: "rockchip_fephy_config_init (faulty_env 5 (- 5)) [] =
       (- 5, [Write 25 0x7aa, Write 20 0x0, Write 20 0x400, Write 20 0x0, Write 20 0x400,
              Write 23 0xC])"
    by simp
  from ok a bad b show ?thesis by blast
qed

subsection \<open>Wake-on-LAN\<close>

text \<open>
  C1. For every six-byte hardware address \<open>I\<close> of the attached interface, when the bus
  accepts the writes, Wake-on-LAN enable returns 0 after, in this order, the banked
  writes (WOL, 0) = (I[4] << 8) | I[5], (WOL, 1) = (I[2] << 8) | I[3],
  (WOL, 2) = (I[0] << 8) | I[1], (WOL, 3) = 0xF and the write of 0xE00 to the
  interrupt-mask register (30). For I = 00:11:22:33:44:55 the banked values are 0x4455,
  0x2233, 0x0011 and 0xF.
\<close>

theorem wol_enable_writes:
  assumes "attached_dev phydev = Some ndev"
    and "dev_addr ndev = I"
    and "length I = 6"
    and "writes_ok e tr (wol_enable_seq I)"
  shows "rockchip_fephy_wol_enable e phydev tr =
           Some (0, tr @ wr_events
             (banked BANK_WOL 0 (push_bit 8 (ucast (I ! 4)) OR ucast (I ! 5)) @
              banked BANK_WOL 1 (push_bit 8 (ucast (I ! 2)) OR ucast (I ! 3)) @
              banked BANK_WOL 2 (push_bit 8 (ucast (I ! 0)) OR ucast (I ! 1)) @
              banked BANK_WOL 3 0xF @
              [(30, 0xE00)]))
         \<and> (I = [0x00, 0x11, 0x22, 0x33, 0x44, 0x55] \<longrightarrow>
              rockchip_fephy_wol_enable e phydev tr =
                Some (0, tr @ wr_events
                  (banked BANK_WOL 0 0x4455 @ banked BANK_WOL 1 0x2233 @
                   banked BANK_WOL 2 0x0011 @ banked BANK_WOL 3 0xF @ [(30, 0xE00)])))"
proof -
  from assms have run: "rockchip_fephy_wol_enable e phydev tr =
      Some (0, tr @ wr_events (wol_enable_seq I))"
    by (simp add: wol_enable_is_seq write_seq_ok)
  have general: "rockchip_fephy_wol_enable e phydev tr =
           Some (0, tr @ wr_events
             (banked BANK_WOL 0 (push_bit 8 (ucast (I ! 4)) OR ucast (I ! 5)) @
              banked BANK_WOL 1 (push_bit 8 (ucast (I ! 2)) OR ucast (I ! 3)) @
              banked BANK_WOL 2 (push_bit 8 (ucast (I ! 0)) OR ucast (I ! 1)) @
              banked BANK_WOL 3 0xF @
              [(30, 0xE00)]))"
    using run by (simp add: wol_enable_seq_def fephy_consts)
  have "I = [0x00, 0x11, 0x22, 0x33, 0x44, 0x55] \<longrightarrow>
              rockchip_fephy_wol_enable e phydev tr =
                Some (0, tr @ wr_events
                  (banked BANK_WOL 0 0x4455 @ banked BANK_WOL 1 0x2233 @
                   banked BANK_WOL 2 0x0011 @ banked BANK_WOL 3 0xF @ [(30, 0xE00)]))"
    using general by simp
  with general show ?thesis by blast
qed

theorem wol_enable_writes_witness:
  "attached_dev (phydev_example 5) = Some \<lparr>dev_addr = mac_example\<rparr>
   \<and> length mac_example = 6
   \<and> writes_ok quiet_env [] (wol_enable_seq mac_example)
   \<and> rockchip_fephy_wol_enable quiet_env (phydev_example 5) [] =
       Some (0, [Write 23 0x4455, Write 20 0x4C00, Write 23 0x2233, Write 20 0x4C01,
                 Write 23 0x0011, Write 20 0x4C02, Write 23 0xF, Write 20 0x4C03,
                 Write 30 0xE00])"
proof -
  have h1: "attached_dev (phydev_example 5) = Some \<lparr>dev_addr = mac_example\<rparr>"
    by (simp add: phydev_example_def)
  have h2: "dev_addr \<lparr>dev_addr = mac_example\<rparr> = mac_example"
    by simp
  have h3: "length mac_example = 6"
    by (simp add: mac_example_def)
  have h4: "writes_ok quiet_env [] (wol_enable_seq mac_example)"
    by (rule quiet_writes_ok)
  from wol_enable_writes [OF h1 h2 h3 h4]
  have "rockchip_fephy_wol_enable quiet_env (phydev_example 5) [] =
       Some (0, [Write 23 0x4455, Write 20 0x4C00, Write 23 0x2233, Write 20 0x4C01,
                 Write 23 0x0011, Write 20 0x4C02, Write 23 0xF, Write 20 0x4C03,
                 Write 30 0xE00])"
    by (simp add: mac_example_def wr_events_def banked_def TSTCNTL_WRITE_def fephy_consts)
  with h1 h3 h4 show ?thesis by blast
qed

text \<open>
  C8. When the bus accepts the writes, Wake-on-LAN disable returns 0 after the banked
  write of 0x0 to (WOL, 3) followed by the write of 0x0 to the interrupt-mask register
  (30). The sequence does not depend on the history before the call, and the function
  takes no driver state. Calling disable a second time repeats the same three writes and
  leaves every flat and every banked register of the device as the first call left it.
\<close>

theorem wol_disable_idempotent:
  "(writes_ok e tr wol_disable_seq \<longrightarrow>
      rockchip_fephy_wol_disable e tr =
        (0, tr @ wr_events (banked BANK_WOL 0x3 0x0 @ [(30, 0x0)])))
   \<and> (writes_ok e tr (wol_disable_seq @ wol_disable_seq) \<longrightarrow>
        snd (rockchip_fephy_wol_disable e (snd (rockchip_fephy_wol_disable e tr))) =
          snd (rockchip_fephy_wol_disable e tr) @ wr_events (banked BANK_WOL 0x3 0x0 @ [(30, 0x0)])
        \<and> dev_run (snd (rockchip_fephy_wol_disable e (snd (rockchip_fephy_wol_disable e tr)))) d =
          dev_run (snd (rockchip_fephy_wol_disable e tr)) d)
   \<and> wol_disable_seq = [(23, 0x0), (20, 0x4C03), (30, 0x0)]"
proof -
  have seq: "banked BANK_WOL 0x3 0x0 @ [(30, 0x0)] = wol_disable_seq"
    by (simp add: wol_disable_seq_def fephy_consts)
  have once: "rockchip_fephy_wol_disable e h = (0, h @ wr_events wol_disable_seq)"
    if "writes_ok e h wol_disable_seq" for h
    using that by (simp add: wol_disable_is_seq write_seq_ok)
  have "writes_ok e tr wol_disable_seq \<longrightarrow>
      rockchip_fephy_wol_disable e tr =
        (0, tr @ wr_events (banked BANK_WOL 0x3 0x0 @ [(30, 0x0)]))"
    using once [of tr] by (simp add: seq)
  moreover have "writes_ok e tr (wol_disable_seq @ wol_disable_seq) \<longrightarrow>
        snd (rockchip_fephy_wol_disable e (snd (rockchip_fephy_wol_disable e tr))) =
          snd (rockchip_fephy_wol_disable e tr) @ wr_events (banked BANK_WOL 0x3 0x0 @ [(30, 0x0)])
        \<and> dev_run (snd (rockchip_fephy_wol_disable e (snd (rockchip_fephy_wol_disable e tr)))) d =
          dev_run (snd (rockchip_fephy_wol_disable e tr)) d"
  proof
    assume "writes_ok e tr (wol_disable_seq @ wol_disable_seq)"
    then have ok1: "writes_ok e tr wol_disable_seq"
      and ok2: "writes_ok e (tr @ wr_events wol_disable_seq) wol_disable_seq"
      by (simp_all add: writes_ok_append)
    have first: "snd (rockchip_fephy_wol_disable e tr) = tr @ wr_events wol_disable_seq"
      using once [OF ok1] by simp
    have second: "snd (rockchip_fephy_wol_disable e (tr @ wr_events wol_disable_seq)) =
        (tr @ wr_events wol_disable_seq) @ wr_events wol_disable_seq"
      using once [OF ok2] by simp
    have "dev_run ((tr @ wr_events wol_disable_seq) @ wr_events wol_disable_seq) d =
        dev_run (tr @ wr_events wol_disable_seq) d"
      by (simp only: dev_run_append dev_run_wol_disable_twice)
    with first second
    show "snd (rockchip_fephy_wol_disable e (snd (rockchip_fephy_wol_disable e tr))) =
          snd (rockchip_fephy_wol_disable e tr) @ wr_events (banked BANK_WOL 0x3 0x0 @ [(30, 0x0)])
        \<and> dev_run (snd (rockchip_fephy_wol_disable e (snd (rockchip_fephy_wol_disable e tr)))) d =
          dev_run (snd (rockchip_fephy_wol_disable e tr)) d"
      by (simp add: seq)
  qed
  ultimately show ?thesis
    using wol_disable_seq_explicit by blast
qed

theorem wol_disable_idempotent_witness:
  "writes_ok quiet_env [] (wol_disable_seq @ wol_disable_seq)
   \<and> rockchip_fephy_wol_disable quiet_env [] =
       (0, [Write 23 0x0, Write 20 0x4C03, Write 30 0x0])
   \<and> snd (rockchip_fephy_wol_disable quiet_env (snd (rockchip_fephy_wol_disable quiet_env []))) =
       [Write 23 0x0, Write 20 0x4C03, Write 30 0x0, Write 23 0x0, Write 20 0x4C03, Write 30 0x0]
   \<and> dev_run (snd (rockchip_fephy_wol_disable quiet_env
                 (snd (rockchip_fephy_wol_disable quiet_env [])))) dev_zero =
     dev_run [Write 23 0x0, Write 20 0x4C03, Write 30 0x0] dev_zero"
proof -
  have ok2: "writes_ok quiet_env [] (wol_disable_seq @ wol_disable_seq)"
    by (rule quiet_writes_ok)
  have ok1: "writes_ok quiet_env [] wol_disable_seq"
    by (rule quiet_writes_ok)
  have ev: "wr_events (banked BANK_WOL 0x3 0x0 @ [(30, 0x0)]) =
      [Write 23 0x0, Write 20 0x4C03, Write 30 0x0]"
    by (simp add: wr_events_def banked_def TSTCNTL_WRITE_def fephy_consts)
  from wol_disable_idempotent [of quiet_env "[]" dev_zero] ok1 ev
  have a: "rockchip_fephy_wol_disable quiet_env [] =
       (0, [Write 23 0x0, Write 20 0x4C03, Write 30 0x0])"
    by simp
  from wol_disable_idempotent [of quiet_env "[]" dev_zero] ok2
  have b0: "snd (rockchip_fephy_wol_disable quiet_env (snd (rockchip_fephy_wol_disable quiet_env []))) =
       snd (rockchip_fephy_wol_disable quiet_env []) @
       wr_events (banked BANK_WOL 0x3 0x0 @ [(30, 0x0)])"
    and c0: "dev_run (snd (rockchip_fephy_wol_disable quiet_env
                 (snd (rockchip_fephy_wol_disable quiet_env [])))) dev_zero =
     dev_run (snd (rockchip_fephy_wol_disable quiet_env [])) dev_zero"
    by blast+
  from b0
  have b: "snd (rockchip_fephy_wol_disable quiet_env (snd (rockchip_fephy_wol_disable quiet_env []))) =
       [Write 23 0x0, Write 20 0x4C03, Write 30 0x0, Write 23 0x0, Write 20 0x4C03, Write 30 0x0]"
    by (simp only: a ev snd_conv append.simps)
  from c0
  have c: "dev_run (snd (rockchip_fephy_wol_disable quiet_env
                 (snd (rockchip_fephy_wol_disable quiet_env [])))) dev_zero =
     dev_run [Write 23 0x0, Write 20 0x4C03, Write 30 0x0] dev_zero"
    by (simp only: a snd_conv)
  from ok2 a b c show ?thesis by blast
qed

subsection \<open>Probe, suspend and resume\<close>

text \<open>
  C5. On a PHY instance with a bound wake line (\<open>wol_irq > 0\<close>), suspend first runs
  Wake-on-LAN enable, then enables the wake line at the interrupt controller, then
  calls the generic suspend, whose result it returns. Resume is the mirror: Wake-on-LAN
  disable, then the wake line is disabled, then the generic resume. When the bus accepts
  the writes, the histories are the enable (disable) writes followed by the two events.
\<close>

theorem suspend_resume_order:
  assumes "priv phydev = Some p" and "0 < wol_irq p"
  shows "rockchip_fephy_suspend e phydev tr =
           (case rockchip_fephy_wol_enable e phydev tr of
              None \<Rightarrow> None
            | Some (ret, tr1) \<Rightarrow>
                Some (genphy_suspend_ret e (tr1 @ [EnableIrq (wol_irq p)]),
                      tr1 @ [EnableIrq (wol_irq p), GenphySuspend]))
         \<and> rockchip_fephy_resume e phydev tr =
           (case rockchip_fephy_wol_disable e tr of
              (ret, tr1) \<Rightarrow>
                Some (genphy_resume_ret e (tr1 @ [DisableIrq (wol_irq p)]),
                      tr1 @ [DisableIrq (wol_irq p), GenphyResume]))
         \<and> (\<forall>ndev. attached_dev phydev = Some ndev \<and> length (dev_addr ndev) = 6 \<and>
               writes_ok e tr (wol_enable_seq (dev_addr ndev)) \<longrightarrow>
               rockchip_fephy_suspend e phydev tr =
                 Some (genphy_suspend_ret e
                         (tr @ wr_events (wol_enable_seq (dev_addr ndev)) @ [EnableIrq (wol_irq p)]),
                       tr @ wr_events (wol_enable_seq (dev_addr ndev)) @
                         [EnableIrq (wol_irq p), GenphySuspend]))
         \<and> (writes_ok e tr wol_disable_seq \<longrightarrow>
               rockchip_fephy_resume e phydev tr =
                 Some (genphy_resume_ret e
                         (tr @ wr_events wol_disable_seq @ [DisableIrq (wol_irq p)]),
                       tr @ wr_events wol_disable_seq @ [DisableIrq (wol_irq p), GenphyResume]))"
proof -
  from assms have s: "rockchip_fephy_suspend e phydev tr =
           (case rockchip_fephy_wol_enable e phydev tr of
              None \<Rightarrow> None
            | Some (ret, tr1) \<Rightarrow>
                Some (genphy_suspend_ret e (tr1 @ [EnableIrq (wol_irq p)]),
                      tr1 @ [EnableIrq (wol_irq p), GenphySuspend]))"
    by (simp add: rockchip_fephy_suspend_def Let_def split: option.split)
  from assms have r: "rockchip_fephy_resume e phydev tr =
           (case rockchip_fephy_wol_disable e tr of
              (ret, tr1) \<Rightarrow>
                Some (genphy_resume_ret e (tr1 @ [DisableIrq (wol_irq p)]),
                      tr1 @ [DisableIrq (wol_irq p), GenphyResume]))"
    by (simp add: rockchip_fephy_resume_def Let_def split: prod.split)
  have s_ok: "\<forall>ndev. attached_dev phydev = Some ndev \<and> length (dev_addr ndev) = 6 \<and>
               writes_ok e tr (wol_enable_seq (dev_addr ndev)) \<longrightarrow>
               rockchip_fephy_suspend e phydev tr =
                 Some (genphy_suspend_ret e
                         (tr @ wr_events (wol_enable_seq (dev_addr ndev)) @ [EnableIrq (wol_irq p)]),
                       tr @ wr_events (wol_enable_seq (dev_addr ndev)) @
                         [EnableIrq (wol_irq p), GenphySuspend])"
    by (simp add: s wol_enable_is_seq write_seq_ok)
  have r_ok: "writes_ok e tr wol_disable_seq \<longrightarrow>
               rockchip_fephy_resume e phydev tr =
                 Some (genphy_resume_ret e
                         (tr @ wr_events wol_disable_seq @ [DisableIrq (wol_irq p)]),
                       tr @ wr_events wol_disable_seq @ [DisableIrq (wol_irq p), GenphyResume])"
    by (simp add: r wol_disable_is_seq write_seq_ok)
  from s r s_ok r_ok show ?thesis by blast
qed

theorem suspend_resume_order_witness:
  "priv (phydev_example 5) = Some \<lparr>phydev_set = True, wol_irq = 5\<rparr>
   \<and> 0 < wol_irq \<lparr>phydev_set = True, wol_irq = 5\<rparr>
   \<and> rockchip_fephy_suspend quiet_env (phydev_example 5) [] =
       Some (0, [Write 23 0x4455, Write 20 0x4C00, Write 23 0x2233, Write 20 0x4C01,
                 Write 23 0x0011, Write 20 0x4C02, Write 23 0xF, Write 20 0x4C03,
                 Write 30 0xE00, EnableIrq 5, GenphySuspend])
   \<and> rockchip_fephy_resume quiet_env (phydev_example 5) [] =
       Some (0, [Write 23 0x0, Write 20 0x4C03, Write 30 0x0, DisableIrq 5, GenphyResume])"
proof -
  have h1: "priv (phydev_example 5) = Some \<lparr>phydev_set = True, wol_irq = 5\<rparr>"
    by (simp add: phydev_example_def)
  have h2: "0 < wol_irq \<lparr>phydev_set = True, wol_irq = 5\<rparr>"
    by simp
  have dev: "attached_dev (phydev_example 5) = Some \<lparr>dev_addr = mac_example\<rparr>"
    "length (dev_addr \<lparr>dev_addr = mac_example\<rparr>) = 6"
    by (simp_all add: phydev_example_def mac_example_def)
  have ok: "writes_ok quiet_env [] (wol_enable_seq (dev_addr \<lparr>dev_addr = mac_example\<rparr>))"
    "writes_ok quiet_env [] wol_disable_seq"
    by (rule quiet_writes_ok)+
  note inst = suspend_resume_order [OF h1 h2, of quiet_env "[]"]
  from inst dev ok
  have "rockchip_fephy_suspend quiet_env (phydev_example 5) [] =
      Some (genphy_suspend_ret quiet_env
              ([] @ wr_events (wol_enable_seq (dev_addr \<lparr>dev_addr = mac_example\<rparr>)) @
                 [EnableIrq (wol_irq \<lparr>phydev_set = True, wol_irq = 5\<rparr>)]),
            [] @ wr_events (wol_enable_seq (dev_addr \<lparr>dev_addr = mac_example\<rparr>)) @
              [EnableIrq (wol_irq \<lparr>phydev_set = True, wol_irq = 5\<rparr>), GenphySuspend])"
    by blast
  then have a: "rockchip_fephy_suspend quiet_env (phydev_example 5) [] =
       Some (0, [Write 23 0x4455, Write 20 0x4C00, Write 23 0x2233, Write 20 0x4C01,
                 Write 23 0x0011, Write 20 0x4C02, Write 23 0xF, Write 20 0x4C03,
                 Write 30 0xE00, EnableIrq 5, GenphySuspend])"
    by (simp add: wol_enable_seq_example wr_events_def quiet_env_def)
  from inst ok
  have "rockchip_fephy_resume quiet_env (phydev_example 5) [] =
      Some (genphy_resume_ret quiet_env
              ([] @ wr_events wol_disable_seq @
                 [DisableIrq (wol_irq \<lparr>phydev_set = True, wol_irq = 5\<rparr>)]),
            [] @ wr_events wol_disable_seq @
              [DisableIrq (wol_irq \<lparr>phydev_set = True, wol_irq = 5\<rparr>), GenphyResume])"
    by blast
  then have b: "rockchip_fephy_resume quiet_env (phydev_example 5) [] =
       Some (0, [Write 23 0x0, Write 20 0x4C03, Write 30 0x0, DisableIrq 5, GenphyResume])"
    by (simp add: wol_disable_seq_explicit wr_events_def quiet_env_def)
  from h1 h2 a b show ?thesis by blast
qed

text \<open>
  C9. When the private structure is allocated and the lookup of the interrupt named
  wol_irq answers \<open>-EPROBE_DEFER\<close>, probe returns exactly that value. Nothing is added
  to the history, so no interrupt handler is requested, and the value left in \<open>wol_irq\<close>
  is not positive, which is the driver's test for a bound wake line.
\<close>

theorem probe_defer:
  assumes "devm_kzalloc_ok e" and "of_irq_get_byname_ret e = - EPROBE_DEFER"
  shows "rockchip_fephy_probe e phydev tr =
           (- EPROBE_DEFER,
            phydev\<lparr>priv := Some \<lparr>phydev_set = False, wol_irq = - EPROBE_DEFER\<rparr>\<rparr>,
            tr)
         \<and> \<not> 0 < wol_irq \<lparr>phydev_set = False, wol_irq = - EPROBE_DEFER\<rparr>"
  using assms by (simp add: rockchip_fephy_probe_def Let_def EPROBE_DEFER_def)

theorem probe_defer_witness:
  "devm_kzalloc_ok (irq_env (- 517))
   \<and> of_irq_get_byname_ret (irq_env (- 517)) = - EPROBE_DEFER
   \<and> rockchip_fephy_probe (irq_env (- 517)) phydev_fresh [] =
       (- 517, \<lparr>priv = Some \<lparr>phydev_set = False, wol_irq = - 517\<rparr>, attached_dev = None\<rparr>, [])"
proof -
  have h1: "devm_kzalloc_ok (irq_env (- 517))"
    by (simp add: irq_env_def quiet_env_def)
  have h2: "of_irq_get_byname_ret (irq_env (- 517)) = - EPROBE_DEFER"
    by (simp add: irq_env_def quiet_env_def EPROBE_DEFER_def)
  from probe_defer [OF h1 h2, of phydev_fresh "[]"]
  have "rockchip_fephy_probe (irq_env (- 517)) phydev_fresh [] =
       (- 517, \<lparr>priv = Some \<lparr>phydev_set = False, wol_irq = - 517\<rparr>, attached_dev = None\<rparr>, [])"
    by (simp add: phydev_fresh_def EPROBE_DEFER_def)
  with h1 h2 show ?thesis by blast
qed

text \<open>
  C10. When the private structure is allocated and the interrupt lookup answers a value
  that is not positive and is not \<open>-EPROBE_DEFER\<close>, probe returns 0 and adds nothing to
  the history: no interrupt handler is requested. On the instance it leaves behind,
  suspend and resume issue no register write: the only event is the call of the generic
  suspend or resume, whose result is returned.
\<close>

theorem probe_without_wake_line:
  assumes "devm_kzalloc_ok e"
    and "of_irq_get_byname_ret e = v"
    and "v \<le> 0"
    and "v \<noteq> - EPROBE_DEFER"
    and "phydev' = phydev\<lparr>priv := Some \<lparr>phydev_set = True, wol_irq = v\<rparr>\<rparr>"
  shows "rockchip_fephy_probe e phydev tr = (0, phydev', tr)
         \<and> (\<forall>e' tr'. rockchip_fephy_suspend e' phydev' tr' =
               Some (genphy_suspend_ret e' tr', tr' @ [GenphySuspend]))
         \<and> (\<forall>e' tr'. rockchip_fephy_resume e' phydev' tr' =
               Some (genphy_resume_ret e' tr', tr' @ [GenphyResume]))"
  using assms
  by (simp add: rockchip_fephy_probe_def rockchip_fephy_suspend_def rockchip_fephy_resume_def
      Let_def)

theorem probe_without_wake_line_witness:
  "devm_kzalloc_ok (irq_env (- 22))
   \<and> of_irq_get_byname_ret (irq_env (- 22)) = - 22
   \<and> - 22 \<noteq> - EPROBE_DEFER
   \<and> rockchip_fephy_probe (irq_env (- 22)) phydev_fresh [] =
       (0, \<lparr>priv = Some \<lparr>phydev_set = True, wol_irq = - 22\<rparr>, attached_dev = None\<rparr>, [])
   \<and> rockchip_fephy_suspend (faulty_env 0 (- 5))
       \<lparr>priv = Some \<lparr>phydev_set = True, wol_irq = - 22\<rparr>, attached_dev = None\<rparr> [] =
       Some (0, [GenphySuspend])
   \<and> rockchip_fephy_resume (faulty_env 0 (- 5))
       \<lparr>priv = Some \<lparr>phydev_set = True, wol_irq = - 22\<rparr>, attached_dev = None\<rparr> [] =
       Some (0, [GenphyResume])"
proof -
  have h1: "devm_kzalloc_ok (irq_env (- 22))"
    by (simp add: irq_env_def quiet_env_def)
  have h2: "of_irq_get_byname_ret (irq_env (- 22)) = - 22"
    by (simp add: irq_env_def quiet_env_def)
  have h3: "(- 22 :: int) \<le> 0"
    by simp
  have h4: "- 22 \<noteq> - EPROBE_DEFER"
    by (simp add: EPROBE_DEFER_def)
  have h5: "\<lparr>priv = Some \<lparr>phydev_set = True, wol_irq = - 22\<rparr>, attached_dev = None\<rparr> =
      phydev_fresh\<lparr>priv := Some \<lparr>phydev_set = True, wol_irq = - 22\<rparr>\<rparr>"
    by (simp add: phydev_fresh_def)
  note inst = probe_without_wake_line [OF h1 h2 h3 h4 h5, of "[]"]
  from inst have a: "rockchip_fephy_probe (irq_env (- 22)) phydev_fresh [] =
       (0, \<lparr>priv = Some \<lparr>phydev_set = True, wol_irq = - 22\<rparr>, attached_dev = None\<rparr>, [])"
    by blast
  from inst have "rockchip_fephy_suspend (faulty_env 0 (- 5))
       \<lparr>priv = Some \<lparr>phydev_set = True, wol_irq = - 22\<rparr>, attached_dev = None\<rparr> [] =
       Some (genphy_suspend_ret (faulty_env 0 (- 5)) [], [] @ [GenphySuspend])"
    by blast
  then have b: "rockchip_fephy_suspend (faulty_env 0 (- 5))
       \<lparr>priv = Some \<lparr>phydev_set = True, wol_irq = - 22\<rparr>, attached_dev = None\<rparr> [] =
       Some (0, [GenphySuspend])"
    by (simp add: faulty_env_def quiet_env_def)
  from inst have "rockchip_fephy_resume (faulty_env 0 (- 5))
       \<lparr>priv = Some \<lparr>phydev_set = True, wol_irq = - 22\<rparr>, attached_dev = None\<rparr> [] =
       Some (genphy_resume_ret (faulty_env 0 (- 5)) [], [] @ [GenphyResume])"
    by blast
  then have c: "rockchip_fephy_resume (faulty_env 0 (- 5))
       \<lparr>priv = Some \<lparr>phydev_set = True, wol_irq = - 22\<rparr>, attached_dev = None\<rparr> [] =
       Some (0, [GenphyResume])"
    by (simp add: faulty_env_def quiet_env_def)
  from h1 h2 h4 a b c show ?thesis by blast
qed

subsection \<open>Where the driver departs from the specification\<close>

text \<open>
  C2. The specification asks Wake-on-LAN enable to enter test mode before its banked
  writes and to leave it afterwards, as initialisation does around its own banked
  write. The driver does neither. On a bus that accepts every write, with the address
  00:11:22:33:44:55 and an empty history, enable issues the four banked writes and the
  interrupt-mask write only: the history does not start with the enter sequence 0x0,
  0x400, 0x0, 0x400 on register 20 and contains no write of 0x0 to register 20 at all,
  and the last value written to the test-mode control register is 0x4C03, which has the
  test-mode enable bit 0x400 set. Initialisation on the same bus brackets its banked
  write with the enter sequence and the closing write.
\<close>

theorem wol_enable_without_tstmode:
  "rockchip_fephy_wol_enable quiet_env (phydev_example 5) [] =
     Some (0, [Write 23 0x4455, Write 20 0x4C00, Write 23 0x2233, Write 20 0x4C01,
               Write 23 0x0011, Write 20 0x4C02, Write 23 0xF, Write 20 0x4C03,
               Write 30 0xE00])
   \<and> Write SMI_ADDR_TSTCNTL TSTMODE_DISABLE \<notin>
       set (snd (the (rockchip_fephy_wol_enable quiet_env (phydev_example 5) [])))
   \<and> (0x4C03 :: u16) AND TSTMODE_ENABLE = TSTMODE_ENABLE
   \<and> rockchip_fephy_config_init quiet_env [] =
       (0, [Write 25 0x7aa, Write 20 0x0, Write 20 0x400, Write 20 0x0, Write 20 0x400,
            Write 23 0xC, Write 20 0x4418, Write 20 0x0])"
  by (simp add: rockchip_fephy_wol_enable_def rockchip_fephy_config_init_def
      rockchip_fephy_init_tstmode_def rockchip_fephy_close_tstmode_def
      rockchip_fephy_bank_write_def phy_write_def wol_match_word_def TSTCNTL_WRITE_def
      phydev_example_def mac_example_def quiet_env_def fephy_consts)

text \<open>
  C3. The specification asks every bus error to reach the caller. Suspend and resume
  call Wake-on-LAN enable and disable without looking at their result. On a bus whose
  first write fails with -5 (EIO), with wake line 5 bound, enable and disable return
  -5 after the rejected write, and suspend and resume nevertheless go on to the
  interrupt controller and the generic routine and return 0.
\<close>

theorem suspend_resume_drop_bus_error:
  "rockchip_fephy_wol_enable (faulty_env 0 (- 5)) (phydev_example 5) [] =
     Some (- 5, [Write 23 0x4455])
   \<and> rockchip_fephy_suspend (faulty_env 0 (- 5)) (phydev_example 5) [] =
     Some (0, [Write 23 0x4455, EnableIrq 5, GenphySuspend])
   \<and> rockchip_fephy_wol_disable (faulty_env 0 (- 5)) [] = (- 5, [Write 23 0x0])
   \<and> rockchip_fephy_resume (faulty_env 0 (- 5)) (phydev_example 5) [] =
     Some (0, [Write 23 0x0, DisableIrq 5, GenphyResume])"
  by (simp add: rockchip_fephy_suspend_def rockchip_fephy_resume_def
      rockchip_fephy_wol_enable_def rockchip_fephy_wol_disable_def
      rockchip_fephy_bank_write_def phy_write_def wol_match_word_def TSTCNTL_WRITE_def
      phydev_example_def mac_example_def faulty_env_def quiet_env_def fephy_consts)

end
